theory Spec2Isabelle
  imports Main
begin

section \<open>Data model\<close>

text \<open>
  The ledger of \<^verbatim>\<open>server/src\<close>: orders and processed webhook events, kept in a
  relational store that the services reach through the Prisma client. Rows are kept in
  lists, in insertion order, so that the number of rows with a given key can be counted.

  Numbers of the JSON request body are JavaScript numbers, that is, IEEE doubles. The
  model covers the whole numbers among them (the values the \<^verbatim>\<open>CartItem\<close>
  interface documents: prices in cents, whole quantities), with the rounding of doubles
  to 53 significant bits written out, and \<open>NaN\<close> as the value that arithmetic on an
  absent field produces. A number of the body is taken as it is after parsing, so it is
  a double already. Fractional numbers and magnitudes beyond the range of doubles are
  outside the model. A field that the JSON body may leave out is an \<open>option\<close>.
  The \<open>amount\<close> of a stored order is an integer, as the \<^verbatim>\<open>Int\<close> column of the
  schema is.
\<close>

datatype OrderStatus = PENDING | PROCESSING | PAID | FAILED

datatype jsnum = Num int | NaN

record CartItem =
  item_id :: "string option"
  name :: string
  price :: "int option"
  quantity :: "int option"

record Order =
  order_id :: nat
  status :: OrderStatus
  amount :: int
  currency :: string
  items :: "CartItem list"
  idempotencyKey :: string
  stripeCheckoutId :: "string option"
  stripePaymentId :: "string option"
  customerEmail :: "string option"
  paidAt :: "nat option"

record WebhookEvent =
  event_id :: string
  event_type :: string

text \<open>
  The store. \<open>nextOrderId\<close> stands for the \<^verbatim>\<open>@default(uuid())\<close> of the order's
  primary key: every insert takes a fresh identifier.
\<close>

record Db =
  orders :: "Order list"
  webhookEvents :: "WebhookEvent list"
  nextOrderId :: nat

datatype db_error = UniqueConstraintFailed | RecordNotFound | StorageFailure | InvalidValue

section \<open>Store operations used by the services\<close>

text \<open>
  The Prisma calls that \<^verbatim>\<open>order.service.ts\<close> makes, with the constraints of the
  schema (\<^verbatim>\<open>idempotencyKey @unique\<close>, \<^verbatim>\<open>stripeCheckoutId @unique\<close>, the
  event's \<^verbatim>\<open>id @id\<close>, \<^verbatim>\<open>amount Int\<close>): a violated constraint, a missing row
  and a value that the column does not take are thrown errors. An \<^verbatim>\<open>Int\<close> column
  takes the whole numbers of 32 bits; it takes neither \<open>NaN\<close> nor a number beyond them.
\<close>

fun int_column :: "jsnum \<Rightarrow> int option" where
  "int_column NaN = None"
| "int_column (Num n) = (if - 2147483648 \<le> n \<and> n \<le> 2147483647 then Some n else None)"

definition order_findUnique_idempotencyKey :: "string \<Rightarrow> Db \<Rightarrow> Order option" where
  "order_findUnique_idempotencyKey key db = find (\<lambda>p. idempotencyKey p = key) (orders db)"

definition order_findUnique_stripeCheckoutId :: "string \<Rightarrow> Db \<Rightarrow> Order option" where
  "order_findUnique_stripeCheckoutId sid db =
     find (\<lambda>p. stripeCheckoutId p = Some sid) (orders db)"

definition order_findUnique_id :: "nat \<Rightarrow> Db \<Rightarrow> Order option" where
  "order_findUnique_id i db = find (\<lambda>p. order_id p = i) (orders db)"

definition order_create ::
  "jsnum \<Rightarrow> string \<Rightarrow> CartItem list \<Rightarrow> string \<Rightarrow> Db \<Rightarrow> db_error + (Order \<times> Db)" where
  "order_create amount' currency' items' key db =
     (case int_column amount' of
        None \<Rightarrow> Inl InvalidValue
      | Some cents \<Rightarrow>
          (if list_ex (\<lambda>p. idempotencyKey p = key) (orders db)
           then Inl UniqueConstraintFailed
           else
             (let order = \<lparr> order_id = nextOrderId db, status = PENDING, amount = cents,
                             currency = currency', items = items', idempotencyKey = key,
                             stripeCheckoutId = None, stripePaymentId = None,
                             customerEmail = None, paidAt = None \<rparr>
              in Inr (order, db\<lparr> orders := orders db @ [order],
                                 nextOrderId := Suc (nextOrderId db) \<rparr>))))"

definition order_update :: "nat \<Rightarrow> (Order \<Rightarrow> Order) \<Rightarrow> Db \<Rightarrow> db_error + (Order \<times> Db)" where
  "order_update i data db =
     (case order_findUnique_id i db of
        None \<Rightarrow> Inl RecordNotFound
      | Some p \<Rightarrow>
          (if stripeCheckoutId (data p) \<noteq> stripeCheckoutId p
              \<and> stripeCheckoutId (data p) \<noteq> None
              \<and> list_ex (\<lambda>q. stripeCheckoutId q = stripeCheckoutId (data p)) (orders db)
           then Inl UniqueConstraintFailed
           else Inr (data p,
                     db\<lparr> orders := map (\<lambda>q. if order_id q = i then data q else q)
                                       (orders db) \<rparr>)))"

definition webhookEvent_findUnique :: "string \<Rightarrow> Db \<Rightarrow> WebhookEvent option" where
  "webhookEvent_findUnique i db = find (\<lambda>e. event_id e = i) (webhookEvents db)"

definition webhookEvent_create ::
  "string \<Rightarrow> string \<Rightarrow> Db \<Rightarrow> db_error + (WebhookEvent \<times> Db)" where
  "webhookEvent_create i ty db =
     (if list_ex (\<lambda>e. event_id e = i) (webhookEvents db) then Inl UniqueConstraintFailed
      else
        (let row = \<lparr> event_id = i, event_type = ty \<rparr>
         in Inr (row, db\<lparr> webhookEvents := webhookEvents db @ [row] \<rparr>)))"

text \<open>
  Every store call is awaited and may throw for reasons of the store itself (a lost
  connection, a timeout). \<open>failAt = Some k\<close> makes the \<open>k\<close>-th awaited call of an
  operation throw; \<open>failAt = None\<close> is a healthy store.
\<close>

definition await :: "nat option \<Rightarrow> nat \<Rightarrow> (db_error + 'a) \<Rightarrow> db_error + 'a" where
  "await failAt k r = (if failAt = Some k then Inl StorageFailure else r)"

text \<open>
  \<^verbatim>\<open>prisma.$transaction(async (tx) => ...)\<close>: the callback works on the transaction's
  view \<open>tx\<close>; its writes are committed when it returns and dropped when it throws.
\<close>

definition transaction ::
  "(Db \<Rightarrow> db_error + ('a \<times> Db)) \<Rightarrow> Db \<Rightarrow> (db_error + 'a) \<times> Db" where
  "transaction body db =
     (case body db of
        Inl e \<Rightarrow> (Inl e, db)
      | Inr (r, tx) \<Rightarrow> (Inr r, tx))"

section \<open>Order service: webhook transitions\<close>

definition markOrderAsPaid_tx ::
  "nat option \<Rightarrow> string \<Rightarrow> string option \<Rightarrow> string option \<Rightarrow> string \<Rightarrow> nat \<Rightarrow> Db
     \<Rightarrow> db_error + (Order option \<times> Db)" where
  "markOrderAsPaid_tx failAt sid paymentId email webhookEventId now tx =
     (case await failAt 0 (Inr (webhookEvent_findUnique webhookEventId tx)) of
        Inl e \<Rightarrow> Inl e
      | Inr (Some existingEvent) \<Rightarrow> Inr (None, tx)
      | Inr None \<Rightarrow>
          (case await failAt 1 (Inr (order_findUnique_stripeCheckoutId sid tx)) of
             Inl e \<Rightarrow> Inl e
           | Inr None \<Rightarrow>
               (case await failAt 2
                       (webhookEvent_create webhookEventId ''checkout.session.completed'' tx) of
                  Inl e \<Rightarrow> Inl e
                | Inr (row, tx1) \<Rightarrow> Inr (None, tx1))
           | Inr (Some order) \<Rightarrow>
               (if status order = PAID then
                  (case await failAt 2
                          (webhookEvent_create webhookEventId ''checkout.session.completed'' tx) of
                     Inl e \<Rightarrow> Inl e
                   | Inr (row, tx1) \<Rightarrow> Inr (Some order, tx1))
                else
                  (case await failAt 2
                          (order_update (order_id order)
                             (\<lambda>p. p\<lparr> status := PAID, stripePaymentId := paymentId,
                                      customerEmail := email, paidAt := Some now \<rparr>) tx) of
                     Inl e \<Rightarrow> Inl e
                   | Inr (updatedOrder, tx1) \<Rightarrow>
                       (case await failAt 3
                               (webhookEvent_create webhookEventId
                                  ''checkout.session.completed'' tx1) of
                          Inl e \<Rightarrow> Inl e
                        | Inr (row, tx2) \<Rightarrow> Inr (Some updatedOrder, tx2))))))"

definition markOrderAsPaid ::
  "nat option \<Rightarrow> string \<Rightarrow> string option \<Rightarrow> string option \<Rightarrow> string \<Rightarrow> nat \<Rightarrow> Db
     \<Rightarrow> (db_error + Order option) \<times> Db" where
  "markOrderAsPaid failAt sid paymentId email webhookEventId now db =
     transaction (markOrderAsPaid_tx failAt sid paymentId email webhookEventId now) db"

definition markOrderAsFailed_tx ::
  "nat option \<Rightarrow> string \<Rightarrow> string \<Rightarrow> Db \<Rightarrow> db_error + (Order option \<times> Db)" where
  "markOrderAsFailed_tx failAt sid webhookEventId tx =
     (case await failAt 0 (Inr (webhookEvent_findUnique webhookEventId tx)) of
        Inl e \<Rightarrow> Inl e
      | Inr (Some existingEvent) \<Rightarrow> Inr (None, tx)
      | Inr None \<Rightarrow>
          (case await failAt 1 (Inr (order_findUnique_stripeCheckoutId sid tx)) of
             Inl e \<Rightarrow> Inl e
           | Inr None \<Rightarrow>
               (case await failAt 2
                       (webhookEvent_create webhookEventId ''checkout.session.expired'' tx) of
                  Inl e \<Rightarrow> Inl e
                | Inr (row, tx1) \<Rightarrow> Inr (None, tx1))
           | Inr (Some order) \<Rightarrow>
               (case await failAt 2
                       (order_update (order_id order) (\<lambda>p. p\<lparr> status := FAILED \<rparr>) tx) of
                  Inl e \<Rightarrow> Inl e
                | Inr (updatedOrder, tx1) \<Rightarrow>
                    (case await failAt 3
                            (webhookEvent_create webhookEventId
                               ''checkout.session.expired'' tx1) of
                       Inl e \<Rightarrow> Inl e
                     | Inr (row, tx2) \<Rightarrow> Inr (Some updatedOrder, tx2)))))"

definition markOrderAsFailed ::
  "nat option \<Rightarrow> string \<Rightarrow> string \<Rightarrow> Db \<Rightarrow> (db_error + Order option) \<times> Db" where
  "markOrderAsFailed failAt sid webhookEventId db =
     transaction (markOrderAsFailed_tx failAt sid webhookEventId) db"

section \<open>Order service: creating orders\<close>

text \<open>
  \<^verbatim>\<open>createOrder\<close> awaits two store calls: the lookup by idempotency key and, when
  the lookup found nothing, the insert. Other requests may run between the two, so each
  call is a function of the store as it is when the call runs.
\<close>

record CreateOrderInput =
  input_items :: "CartItem list"
  input_idempotencyKey :: string
  input_amount :: jsnum
  input_currency :: "string option"

definition createOrder_lookup :: "CreateOrderInput \<Rightarrow> Db \<Rightarrow> Order option" where
  "createOrder_lookup input db =
     order_findUnique_idempotencyKey (input_idempotencyKey input) db"

definition createOrder_insert :: "CreateOrderInput \<Rightarrow> Db \<Rightarrow> db_error + (Order \<times> Db)" where
  "createOrder_insert input db =
     order_create (input_amount input)
       (case input_currency input of None \<Rightarrow> ''usd'' | Some c \<Rightarrow> c)
       (input_items input) (input_idempotencyKey input) db"

text \<open>One call of \<^verbatim>\<open>createOrder\<close> with no other request in between.\<close>

definition createOrder :: "CreateOrderInput \<Rightarrow> Db \<Rightarrow> db_error + (Order \<times> Db)" where
  "createOrder input db =
     (case createOrder_lookup input db of
        Some existingOrder \<Rightarrow> Inr (existingOrder, db)
      | None \<Rightarrow> createOrder_insert input db)"

text \<open>
  Concurrent calls: a caller is before its lookup, between lookup and insert, or done
  (with the order it returns or the error it throws). A schedule names, step by step,
  the caller whose next awaited store call runs.
\<close>

datatype caller =
    Calling CreateOrderInput
  | Inserting CreateOrderInput
  | Returned Order
  | Threw db_error

fun createOrder_step :: "caller \<Rightarrow> Db \<Rightarrow> caller \<times> Db" where
  "createOrder_step (Calling input) db =
     (case createOrder_lookup input db of
        Some existingOrder \<Rightarrow> (Returned existingOrder, db)
      | None \<Rightarrow> (Inserting input, db))"
| "createOrder_step (Inserting input) db =
     (case createOrder_insert input db of
        Inl e \<Rightarrow> (Threw e, db)
      | Inr (order, db') \<Rightarrow> (Returned order, db'))"
| "createOrder_step (Returned order) db = (Returned order, db)"
| "createOrder_step (Threw e) db = (Threw e, db)"

fun run_schedule :: "nat list \<Rightarrow> caller list \<Rightarrow> Db \<Rightarrow> caller list \<times> Db" where
  "run_schedule [] cs db = (cs, db)"
| "run_schedule (i # sched) cs db =
     (if i < length cs then
        (case createOrder_step (cs ! i) db of
           (c, db') \<Rightarrow> run_schedule sched (cs[i := c]) db')
      else run_schedule sched cs db)"

definition updateOrderWithStripeSession ::
  "nat \<Rightarrow> string \<Rightarrow> Db \<Rightarrow> db_error + (Order \<times> Db)" where
  "updateOrderWithStripeSession orderId sid db =
     order_update orderId (\<lambda>p. p\<lparr> stripeCheckoutId := Some sid, status := PROCESSING \<rparr>) db"

definition findOrderByIdempotencyKey :: "string \<Rightarrow> Db \<Rightarrow> Order option" where
  "findOrderByIdempotencyKey key db = order_findUnique_idempotencyKey key db"

section \<open>Stripe service\<close>

text \<open>
  The Stripe SDK is outside the repository. Its three entry points are parameters of the
  model: creating a session, retrieving a session, and constructing an event from a raw
  payload and a signature (each either returns or throws).
\<close>

datatype PaymentIntentRef = PiString string | PiObject string | PiNull

record CheckoutSession =
  session_id :: string
  url :: "string option"
  payment_intent :: PaymentIntentRef
  customer_details_email :: "string option"

record StripeEvent =
  stripe_event_id :: string
  stripe_event_type :: string
  data_object :: CheckoutSession

datatype StripeErrorClass =
    CardErrorClass | RateLimitErrorClass | InvalidRequestErrorClass | APIErrorClass
  | ConnectionErrorClass | AuthenticationErrorClass | OtherStripeErrorClass

datatype thrown = StripeError StripeErrorClass "string option" | UnknownError

datatype StripeErrorType =
    StripeCardError | StripeRateLimitError | StripeInvalidRequestError | StripeAPIError
  | StripeConnectionError | StripeAuthenticationError | StripeIdempotencyError

record Stripe =
  sessions_create :: "nat \<Rightarrow> CartItem list \<Rightarrow> string \<Rightarrow> thrown + CheckoutSession"
  sessions_retrieve :: "string \<Rightarrow> thrown + CheckoutSession"
  constructEvent :: "string \<Rightarrow> string \<Rightarrow> thrown + StripeEvent"

record StripeSessionResult =
  result_success :: bool
  result_sessionId :: "string option"
  result_sessionUrl :: "string option"
  result_error :: "string option"
  result_errorType :: "StripeErrorType option"

fun getStripeErrorType :: "StripeErrorClass \<Rightarrow> string option \<Rightarrow> StripeErrorType" where
  "getStripeErrorType CardErrorClass code = StripeCardError"
| "getStripeErrorType RateLimitErrorClass code = StripeRateLimitError"
| "getStripeErrorType InvalidRequestErrorClass code = StripeInvalidRequestError"
| "getStripeErrorType APIErrorClass code = StripeAPIError"
| "getStripeErrorType ConnectionErrorClass code = StripeConnectionError"
| "getStripeErrorType AuthenticationErrorClass code = StripeAuthenticationError"
| "getStripeErrorType OtherStripeErrorClass code =
     (if code = Some ''idempotency_key_in_use'' then StripeIdempotencyError
      else StripeAPIError)"

definition failure :: "string \<Rightarrow> StripeErrorType option \<Rightarrow> StripeSessionResult" where
  "failure msg ty =
     \<lparr> result_success = False, result_sessionId = None, result_sessionUrl = None,
       result_error = Some msg, result_errorType = ty \<rparr>"

fun handleStripeError :: "thrown \<Rightarrow> StripeSessionResult" where
  "handleStripeError (StripeError cls code) =
     (let errorType = getStripeErrorType cls code in
      (case errorType of
         StripeCardError \<Rightarrow>
           failure ''Your card was declined. Please try a different payment method.''
             (Some errorType)
       | StripeRateLimitError \<Rightarrow>
           failure ''Service is temporarily busy. Please try again in a moment.''
             (Some errorType)
       | StripeConnectionError \<Rightarrow>
           failure ''Unable to connect to payment service. Please try again.''
             (Some errorType)
       | StripeIdempotencyError \<Rightarrow>
           failure ''A conflicting request was made. Please refresh and try again.''
             (Some errorType)
       | _ \<Rightarrow>
           failure ''Payment processing failed. Please try again later.''
             (Some errorType)))"
| "handleStripeError UnknownError =
     failure ''An unexpected error occurred. Please try again.'' None"

text \<open>JavaScript's \<^verbatim>\<open>s || undefined\<close> on a string that may be absent.\<close>

definition truthy :: "string option \<Rightarrow> string option" where
  "truthy s = (case s of None \<Rightarrow> None | Some v \<Rightarrow> (if v = [] then None else Some v))"

definition stripe_createCheckoutSession ::
  "Stripe \<Rightarrow> nat \<Rightarrow> CartItem list \<Rightarrow> string \<Rightarrow> StripeSessionResult" where
  "stripe_createCheckoutSession stripe orderId items' key =
     (case sessions_create stripe orderId items' key of
        Inr session \<Rightarrow>
          \<lparr> result_success = True, result_sessionId = Some (session_id session),
            result_sessionUrl = truthy (url session), result_error = None,
            result_errorType = None \<rparr>
      | Inl err \<Rightarrow> handleStripeError err)"

definition verifyWebhookSignature :: "Stripe \<Rightarrow> string \<Rightarrow> string \<Rightarrow> StripeEvent option" where
  "verifyWebhookSignature stripe payload signature =
     (case constructEvent stripe payload signature of
        Inr event \<Rightarrow> Some event
      | Inl err \<Rightarrow> None)"

definition getCheckoutSession :: "Stripe \<Rightarrow> string \<Rightarrow> CheckoutSession option" where
  "getCheckoutSession stripe sid =
     (case sessions_retrieve stripe sid of
        Inr session \<Rightarrow> Some session
      | Inl err \<Rightarrow> None)"

section \<open>Webhook controller\<close>

record WebhookRequest =
  stripe_signature :: "string option"
  rawBody :: "string option"

datatype WebhookBody = Text string | Received

record WebhookResponse =
  webhook_status :: nat
  webhook_body :: WebhookBody

definition handleCheckoutCompleted ::
  "nat option \<Rightarrow> nat \<Rightarrow> StripeEvent \<Rightarrow> Db \<Rightarrow> (db_error + unit) \<times> Db" where
  "handleCheckoutCompleted failAt now event db =
     (let session = data_object event;
          sid = session_id session;
          paymentId = (case payment_intent session of
                         PiString s \<Rightarrow> Some s
                       | PiObject i \<Rightarrow> truthy (Some i)
                       | PiNull \<Rightarrow> None);
          email = truthy (customer_details_email session)
      in (case markOrderAsPaid failAt sid paymentId email (stripe_event_id event) now db of
            (Inl e, db') \<Rightarrow> (Inl e, db')
          | (Inr order, db') \<Rightarrow> (Inr (), db')))"

definition handleCheckoutExpired ::
  "nat option \<Rightarrow> StripeEvent \<Rightarrow> Db \<Rightarrow> (db_error + unit) \<times> Db" where
  "handleCheckoutExpired failAt event db =
     (case markOrderAsFailed failAt (session_id (data_object event))
             (stripe_event_id event) db of
        (Inl e, db') \<Rightarrow> (Inl e, db')
      | (Inr order, db') \<Rightarrow> (Inr (), db'))"

text \<open>\<^verbatim>\<open>handlePaymentFailed\<close> only logs.\<close>

definition handlePaymentFailed :: "StripeEvent \<Rightarrow> Db \<Rightarrow> (db_error + unit) \<times> Db" where
  "handlePaymentFailed event db = (Inr (), db)"

definition routeEvent ::
  "nat option \<Rightarrow> nat \<Rightarrow> StripeEvent \<Rightarrow> Db \<Rightarrow> (db_error + unit) \<times> Db" where
  "routeEvent failAt now event db =
     (if stripe_event_type event = ''checkout.session.completed''
        then handleCheckoutCompleted failAt now event db
      else if stripe_event_type event = ''checkout.session.expired''
        then handleCheckoutExpired failAt event db
      else if stripe_event_type event = ''payment_intent.payment_failed''
        then handlePaymentFailed event db
      else (Inr (), db))"

definition handleStripeWebhook ::
  "Stripe \<Rightarrow> nat option \<Rightarrow> nat \<Rightarrow> WebhookRequest \<Rightarrow> Db \<Rightarrow> WebhookResponse \<times> Db" where
  "handleStripeWebhook stripe failAt now req db =
     (case truthy (stripe_signature req) of
        None \<Rightarrow> (\<lparr> webhook_status = 400, webhook_body = Text ''Missing signature'' \<rparr>, db)
      | Some signature \<Rightarrow>
          (case rawBody req of
             None \<Rightarrow> (\<lparr> webhook_status = 400, webhook_body = Text ''Missing raw body'' \<rparr>, db)
           | Some payload \<Rightarrow>
               (case verifyWebhookSignature stripe payload signature of
                  None \<Rightarrow>
                    (\<lparr> webhook_status = 400, webhook_body = Text ''Invalid signature'' \<rparr>, db)
                | Some event \<Rightarrow>
                    (case routeEvent failAt now event db of
                       (Inr u, db') \<Rightarrow>
                         (\<lparr> webhook_status = 200, webhook_body = Received \<rparr>, db')
                     | (Inl e, db') \<Rightarrow>
                         (\<lparr> webhook_status = 500,
                            webhook_body = Text ''Webhook processing failed'' \<rparr>, db')))))"

section \<open>Checkout controller\<close>

text \<open>
  The parsed JSON body. \<open>body_items = None\<close> is a body without an \<^verbatim>\<open>items\<close> array;
  an element of the array is an object (\<open>Some\<close>) or \<^verbatim>\<open>null\<close> (\<open>None\<close>).
\<close>

record CreateCheckoutRequest =
  body_items :: "CartItem option list option"
  body_idempotencyKey :: "string option"

record CreateCheckoutResponse =
  http_status :: nat
  success :: bool
  sessionUrl :: "string option"
  orderId :: "nat option"
  error :: "string option"

text \<open>The calls a request makes to the payment provider, in order.\<close>

datatype GatewayCall = RetrieveSession string | CreateSession nat "CartItem list" string

text \<open>
  \<^verbatim>\<open>!item.id || !item.quantity || item.quantity < 1\<close>: an absent or empty id, an
  absent or zero quantity, a quantity below one.
\<close>

definition item_rejected :: "CartItem \<Rightarrow> bool" where
  "item_rejected item =
     (truthy (item_id item) = None
      \<or> (case quantity item of None \<Rightarrow> True | Some q \<Rightarrow> q = 0)
      \<or> (case quantity item of None \<Rightarrow> False | Some q \<Rightarrow> q < 1))"

text \<open>
  The loop over the items. It returns at the first rejected item (status 400); reading
  \<^verbatim>\<open>item.id\<close> of a \<^verbatim>\<open>null\<close> element throws a \<^verbatim>\<open>TypeError\<close>, which leaves
  the loop for the controller's \<^verbatim>\<open>catch\<close>.
\<close>

datatype validation = Accepted "CartItem list" | Rejected | ThrewTypeError

fun validateItems :: "CartItem option list \<Rightarrow> validation" where
  "validateItems [] = Accepted []"
| "validateItems (None # rest) = ThrewTypeError"
| "validateItems (Some item # rest) =
     (if item_rejected item then Rejected
      else (case validateItems rest of
              Accepted xs \<Rightarrow> Accepted (item # xs)
            | Rejected \<Rightarrow> Rejected
            | ThrewTypeError \<Rightarrow> ThrewTypeError))"

text \<open>
  Arithmetic of doubles on whole numbers: the exact result, rounded to the nearest double
  (53 significant bits, ties to the even significand). \<open>ulp n\<close> is the distance between
  neighbouring doubles at the magnitude \<open>n\<close>.
\<close>

function ulp :: "nat \<Rightarrow> nat" where
  "ulp n = (if n < 9007199254740992 then 1 else 2 * ulp (n div 2))"
  by pat_completeness auto
termination
  by (relation "measure id") auto

definition round_nat :: "nat \<Rightarrow> nat" where
  "round_nat n =
     (let u = ulp n; q = n div u; r = n mod u
      in if 2 * r < u then q * u
         else if u < 2 * r then (q + 1) * u
         else if even q then q * u else (q + 1) * u)"

definition round53 :: "int \<Rightarrow> int" where
  "round53 i = (if i < 0 then - int (round_nat (nat (- i))) else int (round_nat (nat i)))"

fun js_mul :: "int option \<Rightarrow> int option \<Rightarrow> jsnum" where
  "js_mul (Some a) (Some b) = Num (round53 (a * b))"
| "js_mul a b = NaN"

fun js_add :: "jsnum \<Rightarrow> jsnum \<Rightarrow> jsnum" where
  "js_add (Num a) (Num b) = Num (round53 (a + b))"
| "js_add a b = NaN"

definition calculateOrderTotal :: "CartItem list \<Rightarrow> jsnum" where
  "calculateOrderTotal items' =
     foldl (\<lambda>total item. js_add total (js_mul (price item) (quantity item))) (Num 0) items'"

definition bad_request :: "string \<Rightarrow> CreateCheckoutResponse" where
  "bad_request msg =
     \<lparr> http_status = 400, success = False, sessionUrl = None, orderId = None,
       error = Some msg \<rparr>"

definition server_error :: "string \<Rightarrow> CreateCheckoutResponse" where
  "server_error msg =
     \<lparr> http_status = 500, success = False, sessionUrl = None, orderId = None,
       error = Some msg \<rparr>"

definition session_response :: "string option \<Rightarrow> nat \<Rightarrow> CreateCheckoutResponse" where
  "session_response u i =
     \<lparr> http_status = 200, success = True, sessionUrl = u, orderId = Some i, error = None \<rparr>"

text \<open>\<^verbatim>\<open>clientKey || uuidv4()\<close>, with the generated identifier as a parameter.\<close>

definition resolveKey :: "string option \<Rightarrow> string \<Rightarrow> string" where
  "resolveKey clientKey uuid = (case truthy clientKey of Some k \<Rightarrow> k | None \<Rightarrow> uuid)"

text \<open>
  Step 3 of the controller: the response replayed for an order that already has a
  session whose URL the provider still reports, and the provider calls made to find out.
\<close>

definition existingSession ::
  "Stripe \<Rightarrow> Order option \<Rightarrow> CreateCheckoutResponse option \<times> GatewayCall list" where
  "existingSession stripe existingOrder =
     (case existingOrder of
        None \<Rightarrow> (None, [])
      | Some order \<Rightarrow>
          (case truthy (stripeCheckoutId order) of
             None \<Rightarrow> (None, [])
           | Some sid \<Rightarrow>
               (case getCheckoutSession stripe sid of
                  None \<Rightarrow> (None, [RetrieveSession sid])
                | Some session \<Rightarrow>
                    (case truthy (url session) of
                       None \<Rightarrow> (None, [RetrieveSession sid])
                     | Some u \<Rightarrow>
                         (Some (session_response (Some u) (order_id order)),
                          [RetrieveSession sid])))))"

text \<open>
  Steps 6 to 8, given what \<^verbatim>\<open>createOrder\<close> returned or threw, on a healthy store: a
  store call throws only for a violated constraint, a refused value or a missing row. A
  throw is caught by the controller's \<^verbatim>\<open>try/catch\<close> and answered with status 500.
  \<^verbatim>\<open>stripeResult.sessionId!\<close> is set whenever \<^verbatim>\<open>success\<close> is; the branch
  without it is kept as the unexpected error. \<open>newSession\<close> is steps 4 to 8 of one
  request with no other request in between.
\<close>

definition afterCreateOrder ::
  "Stripe \<Rightarrow> CartItem list \<Rightarrow> string \<Rightarrow> Db \<Rightarrow> db_error + (Order \<times> Db)
     \<Rightarrow> CreateCheckoutResponse \<times> Db \<times> GatewayCall list" where
  "afterCreateOrder stripe items' key db created =
     (case created of
        Inl e \<Rightarrow> (server_error ''An unexpected error occurred. Please try again.'', db, [])
      | Inr (order, db1) \<Rightarrow>
          (let stripeResult = stripe_createCheckoutSession stripe (order_id order) items' key;
               calls = [CreateSession (order_id order) items' key]
           in if \<not> result_success stripeResult then
                (server_error (case truthy (result_error stripeResult) of
                                 Some msg \<Rightarrow> msg
                               | None \<Rightarrow> ''Failed to create checkout session''),
                 db1, calls)
              else
                (case result_sessionId stripeResult of
                   None \<Rightarrow>
                     (server_error ''An unexpected error occurred. Please try again.'',
                      db1, calls)
                 | Some sid \<Rightarrow>
                     (case updateOrderWithStripeSession (order_id order) sid db1 of
                        Inl e \<Rightarrow>
                          (server_error ''An unexpected error occurred. Please try again.'',
                           db1, calls)
                      | Inr (updated, db2) \<Rightarrow>
                          (session_response (result_sessionUrl stripeResult) (order_id order),
                           db2, calls)))))"

definition newSession ::
  "Stripe \<Rightarrow> CartItem list \<Rightarrow> string \<Rightarrow> Db \<Rightarrow> CreateCheckoutResponse \<times> Db \<times> GatewayCall list" where
  "newSession stripe items' key db =
     afterCreateOrder stripe items' key db
       (createOrder \<lparr> input_items = items', input_idempotencyKey = key,
                      input_amount = calculateOrderTotal items',
                      input_currency = Some ''usd'' \<rparr> db)"

definition createCheckoutSession ::
  "Stripe \<Rightarrow> string \<Rightarrow> CreateCheckoutRequest \<Rightarrow> Db
     \<Rightarrow> CreateCheckoutResponse \<times> Db \<times> GatewayCall list" where
  "createCheckoutSession stripe uuid req db =
     (case body_items req of
        None \<Rightarrow> (bad_request ''Cart items are required'', db, [])
      | Some items' \<Rightarrow>
          (if items' = [] then (bad_request ''Cart items are required'', db, [])
           else
             (case validateItems items' of
                ThrewTypeError \<Rightarrow>
                  (server_error ''An unexpected error occurred. Please try again.'', db, [])
              | Rejected \<Rightarrow>
                  (bad_request ''Each item must have id and quantity >= 1'', db, [])
              | Accepted xs \<Rightarrow>
                  (let key = resolveKey (body_idempotencyKey req) uuid in
                   (case existingSession stripe (findOrderByIdempotencyKey key db) of
                      (Some response, calls) \<Rightarrow> (response, db, calls)
                    | (None, calls) \<Rightarrow>
                        (case newSession stripe xs key db of
                           (response, db', calls') \<Rightarrow>
                             (response, db', calls @ calls')))))))"

section \<open>Sequences of webhook deliveries\<close>

text \<open>
  A delivery of a verified \<^verbatim>\<open>checkout.session.completed\<close> or
  \<^verbatim>\<open>checkout.session.expired\<close> event, with the arguments the controller hands to
  the order service (the time of the delivery is the \<^verbatim>\<open>new Date()\<close> of the
  update). Each delivery runs as one transaction on a healthy store.
\<close>

datatype Delivery =
    Completed string "string option" "string option" string nat
  | Expired string string

fun deliveredEventId :: "Delivery \<Rightarrow> string" where
  "deliveredEventId (Completed sid paymentId email webhookEventId now) = webhookEventId"
| "deliveredEventId (Expired sid webhookEventId) = webhookEventId"

fun process :: "Delivery \<Rightarrow> Db \<Rightarrow> (db_error + Order option) \<times> Db" where
  "process (Completed sid paymentId email webhookEventId now) db =
     markOrderAsPaid None sid paymentId email webhookEventId now db"
| "process (Expired sid webhookEventId) db = markOrderAsFailed None sid webhookEventId db"

definition deliverAll :: "Delivery list \<Rightarrow> Db \<Rightarrow> Db" where
  "deliverAll ds db = foldl (\<lambda>s d. snd (process d s)) db ds"


section \<open>Concurrent webhook deliveries\<close>

text \<open>
  The parts of a delivery that the two transaction callbacks use: the session id of the
  order lookup, the type written to the event row, the data of \<^verbatim>\<open>tx.order.update\<close>,
  and the guard of \<^verbatim>\<open>markOrderAsPaid\<close> (step 3) under which the update is skipped.
\<close>

fun deliveredSessionId :: "Delivery \<Rightarrow> string" where
  "deliveredSessionId (Completed sid paymentId email webhookEventId now) = sid"
| "deliveredSessionId (Expired sid webhookEventId) = sid"

fun deliveredEventType :: "Delivery \<Rightarrow> string" where
  "deliveredEventType (Completed sid paymentId email webhookEventId now) =
     ''checkout.session.completed''"
| "deliveredEventType (Expired sid webhookEventId) = ''checkout.session.expired''"

fun transition :: "Delivery \<Rightarrow> Order \<Rightarrow> Order" where
  "transition (Completed sid paymentId email webhookEventId now) p =
     p\<lparr> status := PAID, stripePaymentId := paymentId, customerEmail := email,
        paidAt := Some now \<rparr>"
| "transition (Expired sid webhookEventId) p = p\<lparr> status := FAILED \<rparr>"

fun alreadyPaid :: "Delivery \<Rightarrow> Order \<Rightarrow> bool" where
  "alreadyPaid (Completed sid paymentId email webhookEventId now) order =
     (status order = PAID)"
| "alreadyPaid (Expired sid webhookEventId) order = False"

text \<open>
  Deliveries that run at the same time. Each is one transaction whose awaited store calls
  are the steps: the duplicate check, the order lookup, the order update, and the event
  insert after which the callback returns and the transaction commits. A transaction
  reads the committed store and keeps its writes to itself until it commits; the commit
  applies them together, or throws and applies none when a row with the event's id has
  been committed in the meantime (the primary key of the event table).
\<close>

datatype txn =
    Queued Delivery
  | Checked Delivery
  | Located Delivery "Order option"
  | Updated Delivery Order
  | Committed Delivery "Order option"
  | RolledBack Delivery db_error

text \<open>
  The writes of a transaction, applied to the committed store: the pending update of the
  order with the given id, if there is one, and the event row.
\<close>

definition commit :: "Delivery \<Rightarrow> nat option \<Rightarrow> Db \<Rightarrow> db_error + Db" where
  "commit d target db =
     (case (case target of
              None \<Rightarrow> Inr db
            | Some i \<Rightarrow>
                (case order_update i (transition d) db of
                   Inl e \<Rightarrow> Inl e
                 | Inr (updatedOrder, db1) \<Rightarrow> Inr db1)) of
        Inl e \<Rightarrow> Inl e
      | Inr db1 \<Rightarrow>
          (case webhookEvent_create (deliveredEventId d) (deliveredEventType d) db1 of
             Inl e \<Rightarrow> Inl e
           | Inr (row, db2) \<Rightarrow> Inr db2))"

fun txn_step :: "txn \<Rightarrow> Db \<Rightarrow> txn \<times> Db" where
  "txn_step (Queued d) db =
     (case webhookEvent_findUnique (deliveredEventId d) db of
        Some existingEvent \<Rightarrow> (Committed d None, db)
      | None \<Rightarrow> (Checked d, db))"
| "txn_step (Checked d) db =
     (Located d (order_findUnique_stripeCheckoutId (deliveredSessionId d) db), db)"
| "txn_step (Located d None) db =
     (case commit d None db of
        Inl e \<Rightarrow> (RolledBack d e, db)
      | Inr db' \<Rightarrow> (Committed d None, db'))"
| "txn_step (Located d (Some order)) db =
     (if alreadyPaid d order then
        (case commit d None db of
           Inl e \<Rightarrow> (RolledBack d e, db)
         | Inr db' \<Rightarrow> (Committed d (Some order), db'))
      else
        (case order_findUnique_id (order_id order) db of
           None \<Rightarrow> (RolledBack d RecordNotFound, db)
         | Some p \<Rightarrow> (Updated d (transition d p), db)))"
| "txn_step (Updated d updatedOrder) db =
     (case commit d (Some (order_id updatedOrder)) db of
        Inl e \<Rightarrow> (RolledBack d e, db)
      | Inr db' \<Rightarrow> (Committed d (Some updatedOrder), db'))"
| "txn_step (Committed d r) db = (Committed d r, db)"
| "txn_step (RolledBack d e) db = (RolledBack d e, db)"

fun run_txns :: "nat list \<Rightarrow> txn list \<Rightarrow> Db \<Rightarrow> txn list \<times> Db" where
  "run_txns [] ts db = (ts, db)"
| "run_txns (i # sched) ts db =
     (if i < length ts then
        (case txn_step (ts ! i) db of
           (t, db') \<Rightarrow> run_txns sched (ts[i := t]) db')
      else run_txns sched ts db)"




section \<open>Example data\<close>

definition example_item :: CartItem where
  "example_item = \<lparr> item_id = Some ''p1'', name = ''Mug'', price = Some 500, quantity = Some 2 \<rparr>"

definition example_order :: Order where
  "example_order =
     \<lparr> order_id = 0, status = PROCESSING, amount = 1000, currency = ''usd'',
       items = [example_item], idempotencyKey = ''key-1'', stripeCheckoutId = Some ''cs_1'',
       stripePaymentId = None, customerEmail = None, paidAt = None \<rparr>"

definition example_db :: Db where
  "example_db = \<lparr> orders = [example_order], webhookEvents = [], nextOrderId = 1 \<rparr>"

definition empty_db :: Db where
  "empty_db = \<lparr> orders = [], webhookEvents = [], nextOrderId = 0 \<rparr>"

definition example_input :: CreateOrderInput where
  "example_input =
     \<lparr> input_items = [example_item], input_idempotencyKey = ''key-2'',
       input_amount = Num 1000, input_currency = Some ''usd'' \<rparr>"

definition example_created :: Order where
  "example_created =
     \<lparr> order_id = 0, status = PENDING, amount = 1000, currency = ''usd'',
       items = [example_item], idempotencyKey = ''key-2'', stripeCheckoutId = None,
       stripePaymentId = None, customerEmail = None, paidAt = None \<rparr>"


text \<open>A provider that accepts every session and verifies only the signature \<open>good\<close>.\<close>

definition example_session :: CheckoutSession where
  "example_session =
     \<lparr> session_id = ''cs_1'', url = Some ''https://pay.example/cs_1'',
       payment_intent = PiString ''pi_1'', customer_details_email = Some ''a@b.c'' \<rparr>"

definition example_completed :: StripeEvent where
  "example_completed =
     \<lparr> stripe_event_id = ''evt_1'', stripe_event_type = ''checkout.session.completed'',
       data_object = example_session \<rparr>"

definition example_stripe :: Stripe where
  "example_stripe =
     \<lparr> sessions_create = (\<lambda>orderId items' key.
          Inr \<lparr> session_id = ''cs_new'', url = Some ''https://pay.example/cs_new'',
                payment_intent = PiNull, customer_details_email = None \<rparr>),
       sessions_retrieve = (\<lambda>sid.
          if sid = ''cs_1'' then Inr example_session
          else Inl (StripeError InvalidRequestErrorClass None)),
       constructEvent = (\<lambda>payload signature.
          if signature = ''good'' then Inr example_completed
          else Inl (StripeError OtherStripeErrorClass None)) \<rparr>"

text \<open>A one-item request with the given price and quantity and no client key.\<close>

definition request_priced :: "int option \<Rightarrow> int option \<Rightarrow> CreateCheckoutRequest" where
  "request_priced p q =
     \<lparr> body_items =
         Some [Some \<lparr> item_id = Some ''p1'', name = ''Mug'', price = p, quantity = q \<rparr>],
       body_idempotencyKey = None \<rparr>"


section \<open>The amount as the specification words it\<close>




section \<open>Lookups and updates of the store\<close>

lemma find_None_list_ex: "(find P xs = None) = (\<not> list_ex P xs)"
  by (induction xs) auto

lemma find_Some_mem: "find P xs = Some x \<Longrightarrow> x \<in> set xs \<and> P x"
  by (induction xs) (auto split: if_splits)

lemma order_update_keeps_session:
  assumes "order_findUnique_stripeCheckoutId sid db = Some order"
    and "\<And>p. stripeCheckoutId (data p) = stripeCheckoutId p"
  shows "\<exists>updated. order_update (order_id order) data db =
           Inr (updated, db\<lparr> orders := map (\<lambda>q. if order_id q = order_id order then data q else q) (orders db) \<rparr>)"
proof -
  from assms(1) have "order \<in> set (orders db)"
    unfolding order_findUnique_stripeCheckoutId_def by (auto dest: find_Some_mem)
  then have "list_ex (\<lambda>p. order_id p = order_id order) (orders db)"
    by (auto simp: list_ex_iff)
  then obtain p where "order_findUnique_id (order_id order) db = Some p"
    unfolding order_findUnique_id_def using find_None_list_ex[of "\<lambda>p. order_id p = order_id order" "orders db"] by auto
  then show ?thesis
    unfolding order_update_def using assms(2) by simp
qed

lemma markOrderAsPaid_events:
  "webhookEvents (snd (markOrderAsPaid None sid paymentId email i now db)) =
     (if list_ex (\<lambda>e. event_id e = i) (webhookEvents db) then webhookEvents db
      else webhookEvents db @ [\<lparr> event_id = i, event_type = ''checkout.session.completed'' \<rparr>])"
proof (cases "list_ex (\<lambda>e. event_id e = i) (webhookEvents db)")
  case True
  then obtain ev where "webhookEvent_findUnique i db = Some ev"
    unfolding webhookEvent_findUnique_def using find_None_list_ex[of "\<lambda>e. event_id e = i" "webhookEvents db"] by auto
  with True show ?thesis
    by (simp add: markOrderAsPaid_def markOrderAsPaid_tx_def transaction_def await_def)
next
  case False
  then have nf: "webhookEvent_findUnique i db = None"
    unfolding webhookEvent_findUnique_def by (simp add: find_None_list_ex)
  show ?thesis
  proof (cases "order_findUnique_stripeCheckoutId sid db")
    case None
    with False nf show ?thesis
      by (simp add: markOrderAsPaid_def markOrderAsPaid_tx_def transaction_def await_def
          webhookEvent_create_def Let_def)
  next
    case (Some order)
    obtain updated where
      "order_update (order_id order)
         (\<lambda>p. p\<lparr> status := PAID, stripePaymentId := paymentId,
                  customerEmail := email, paidAt := Some now \<rparr>) db =
       Inr (updated, db\<lparr> orders := map (\<lambda>q. if order_id q = order_id order then
              q\<lparr> status := PAID, stripePaymentId := paymentId,
                  customerEmail := email, paidAt := Some now \<rparr> else q) (orders db) \<rparr>)"
      using order_update_keeps_session[OF Some, of "\<lambda>p. p\<lparr> status := PAID, stripePaymentId := paymentId,
                  customerEmail := email, paidAt := Some now \<rparr>"] by auto
    with Some False nf show ?thesis
      by (simp add: markOrderAsPaid_def markOrderAsPaid_tx_def transaction_def await_def
          webhookEvent_create_def Let_def)
  qed
qed


lemma markOrderAsFailed_events:
  "webhookEvents (snd (markOrderAsFailed None sid i db)) =
     (if list_ex (\<lambda>e. event_id e = i) (webhookEvents db) then webhookEvents db
      else webhookEvents db @ [\<lparr> event_id = i, event_type = ''checkout.session.expired'' \<rparr>])"
proof (cases "list_ex (\<lambda>e. event_id e = i) (webhookEvents db)")
  case True
  then obtain ev where "webhookEvent_findUnique i db = Some ev"
    unfolding webhookEvent_findUnique_def using find_None_list_ex[of "\<lambda>e. event_id e = i" "webhookEvents db"] by auto
  with True show ?thesis
    by (simp add: markOrderAsFailed_def markOrderAsFailed_tx_def transaction_def await_def)
next
  case False
  then have nf: "webhookEvent_findUnique i db = None"
    unfolding webhookEvent_findUnique_def by (simp add: find_None_list_ex)
  show ?thesis
  proof (cases "order_findUnique_stripeCheckoutId sid db")
    case None
    with False nf show ?thesis
      by (simp add: markOrderAsFailed_def markOrderAsFailed_tx_def transaction_def await_def
          webhookEvent_create_def Let_def)
  next
    case (Some order)
    obtain updated where
      "order_update (order_id order) (\<lambda>p. p\<lparr> status := FAILED \<rparr>) db =
       Inr (updated, db\<lparr> orders := map (\<lambda>q. if order_id q = order_id order then
              q\<lparr> status := FAILED \<rparr> else q) (orders db) \<rparr>)"
      using order_update_keeps_session[OF Some, of "\<lambda>p. p\<lparr> status := FAILED \<rparr>"] by auto
    with Some False nf show ?thesis
      by (simp add: markOrderAsFailed_def markOrderAsFailed_tx_def transaction_def await_def
          webhookEvent_create_def Let_def)
  qed
qed

lemma paid_tx_fault:
  "markOrderAsPaid_tx failAt sid paymentId email i now tx =
     markOrderAsPaid_tx None sid paymentId email i now tx
   \<or> markOrderAsPaid_tx failAt sid paymentId email i now tx = Inl StorageFailure"
  unfolding markOrderAsPaid_tx_def await_def
  by (simp split: sum.splits option.splits prod.splits)

lemma failed_tx_fault:
  "markOrderAsFailed_tx failAt sid i tx = markOrderAsFailed_tx None sid i tx
   \<or> markOrderAsFailed_tx failAt sid i tx = Inl StorageFailure"
  unfolding markOrderAsFailed_tx_def await_def
  by (simp split: sum.splits option.splits prod.splits)


lemma recorded_iff: "(webhookEvent_findUnique i db = None) = (\<not> list_ex (\<lambda>e. event_id e = i) (webhookEvents db))"
  unfolding webhookEvent_findUnique_def by (rule find_None_list_ex)

lemma paid_duplicate:
  assumes "webhookEvent_findUnique i db = Some ev"
  shows "markOrderAsPaid None sid paymentId email i now db = (Inr None, db)"
  using assms by (simp add: markOrderAsPaid_def markOrderAsPaid_tx_def transaction_def await_def)

lemma failed_duplicate:
  assumes "webhookEvent_findUnique i db = Some ev"
  shows "markOrderAsFailed None sid i db = (Inr None, db)"
  using assms by (simp add: markOrderAsFailed_def markOrderAsFailed_tx_def transaction_def await_def)

lemma paid_unmatched:
  assumes "webhookEvent_findUnique i db = None" "order_findUnique_stripeCheckoutId sid db = None"
  shows "markOrderAsPaid None sid paymentId email i now db =
    (Inr None, db\<lparr> webhookEvents := webhookEvents db @ [\<lparr> event_id = i, event_type = ''checkout.session.completed'' \<rparr>] \<rparr>)"
  using assms recorded_iff[of i db]
  by (simp add: markOrderAsPaid_def markOrderAsPaid_tx_def transaction_def await_def webhookEvent_create_def Let_def)

lemma failed_unmatched:
  assumes "webhookEvent_findUnique i db = None" "order_findUnique_stripeCheckoutId sid db = None"
  shows "markOrderAsFailed None sid i db =
    (Inr None, db\<lparr> webhookEvents := webhookEvents db @ [\<lparr> event_id = i, event_type = ''checkout.session.expired'' \<rparr>] \<rparr>)"
  using assms recorded_iff[of i db]
  by (simp add: markOrderAsFailed_def markOrderAsFailed_tx_def transaction_def await_def webhookEvent_create_def Let_def)

lemma paid_clean_returns: "\<exists>r. fst (markOrderAsPaid None sid paymentId email i now db) = Inr r"
proof (cases "webhookEvent_findUnique i db")
  case (Some ev)
  then show ?thesis by (simp add: paid_duplicate)
next
  case None
  note nf = this
  show ?thesis
  proof (cases "order_findUnique_stripeCheckoutId sid db")
    case None
    with nf show ?thesis by (simp add: paid_unmatched)
  next
    case (Some order)
    obtain updated where
      "order_update (order_id order)
         (\<lambda>p. p\<lparr> status := PAID, stripePaymentId := paymentId,
                  customerEmail := email, paidAt := Some now \<rparr>) db =
       Inr (updated, db\<lparr> orders := map (\<lambda>q. if order_id q = order_id order then
              q\<lparr> status := PAID, stripePaymentId := paymentId,
                  customerEmail := email, paidAt := Some now \<rparr> else q) (orders db) \<rparr>)"
      using order_update_keeps_session[OF Some, of "\<lambda>p. p\<lparr> status := PAID, stripePaymentId := paymentId,
                  customerEmail := email, paidAt := Some now \<rparr>"] by auto
    with Some nf recorded_iff[of i db] show ?thesis
      by (simp add: markOrderAsPaid_def markOrderAsPaid_tx_def transaction_def await_def
          webhookEvent_create_def Let_def)
  qed
qed

lemma failed_clean_returns: "\<exists>r. fst (markOrderAsFailed None sid i db) = Inr r"
proof (cases "webhookEvent_findUnique i db")
  case (Some ev)
  then show ?thesis by (simp add: failed_duplicate)
next
  case None
  note nf = this
  show ?thesis
  proof (cases "order_findUnique_stripeCheckoutId sid db")
    case None
    with nf show ?thesis by (simp add: failed_unmatched)
  next
    case (Some order)
    obtain updated where
      "order_update (order_id order) (\<lambda>p. p\<lparr> status := FAILED \<rparr>) db =
       Inr (updated, db\<lparr> orders := map (\<lambda>q. if order_id q = order_id order then
              q\<lparr> status := FAILED \<rparr> else q) (orders db) \<rparr>)"
      using order_update_keeps_session[OF Some, of "\<lambda>p. p\<lparr> status := FAILED \<rparr>"] by auto
    with Some nf recorded_iff[of i db] show ?thesis
      by (simp add: markOrderAsFailed_def markOrderAsFailed_tx_def transaction_def await_def
          webhookEvent_create_def Let_def)
  qed
qed

lemma paid_fault:
  "markOrderAsPaid failAt sid paymentId email i now db =
     markOrderAsPaid None sid paymentId email i now db
   \<or> markOrderAsPaid failAt sid paymentId email i now db = (Inl StorageFailure, db)"
  using paid_tx_fault[of failAt sid paymentId email i now db]
  by (auto simp: markOrderAsPaid_def transaction_def)

lemma failed_fault:
  "markOrderAsFailed failAt sid i db = markOrderAsFailed None sid i db
   \<or> markOrderAsFailed failAt sid i db = (Inl StorageFailure, db)"
  using failed_tx_fault[of failAt sid i db]
  by (auto simp: markOrderAsFailed_def transaction_def)




section \<open>Transactions that overlap\<close>


lemma transition_keeps [simp]:
  "stripeCheckoutId (transition d p) = stripeCheckoutId p"
  "order_id (transition d p) = order_id p"
  by (cases d; simp)+

lemma update_found:
  assumes "order_findUnique_stripeCheckoutId sid db = Some order"
  shows "\<exists>p. order_findUnique_id (order_id order) db = Some p \<and> order_id p = order_id order
           \<and> order_update (order_id order) (transition d) db =
               Inr (transition d p,
                    db\<lparr> orders := map (\<lambda>q. if order_id q = order_id order then transition d q
                                           else q) (orders db) \<rparr>)"
proof -
  from assms have "order \<in> set (orders db)"
    unfolding order_findUnique_stripeCheckoutId_def by (auto dest: find_Some_mem)
  then have "list_ex (\<lambda>p. order_id p = order_id order) (orders db)"
    by (auto simp: list_ex_iff)
  then obtain p where p: "order_findUnique_id (order_id order) db = Some p"
    unfolding order_findUnique_id_def
    using find_None_list_ex[of "\<lambda>p. order_id p = order_id order" "orders db"] by auto
  then have "order_id p = order_id order"
    unfolding order_findUnique_id_def by (auto dest: find_Some_mem)
  with p show ?thesis
    unfolding order_update_def by simp
qed

lemma commit_unmatched:
  assumes "webhookEvent_findUnique (deliveredEventId d) db = None"
    and "order_findUnique_stripeCheckoutId (deliveredSessionId d) db = None"
  shows "commit d None db = Inr (snd (process d db)) \<and> fst (process d db) = Inr None"
  using assms recorded_iff[of "deliveredEventId d" db]
  by (cases d)
     (simp_all add: commit_def paid_unmatched failed_unmatched webhookEvent_create_def Let_def)

lemma commit_alreadyPaid:
  assumes "webhookEvent_findUnique (deliveredEventId d) db = None"
    and "order_findUnique_stripeCheckoutId (deliveredSessionId d) db = Some order"
    and "alreadyPaid d order"
  shows "commit d None db = Inr (snd (process d db)) \<and> fst (process d db) = Inr (Some order)"
  using assms recorded_iff[of "deliveredEventId d" db]
  by (cases d)
     (simp_all add: commit_def markOrderAsPaid_def markOrderAsPaid_tx_def transaction_def
        await_def webhookEvent_create_def Let_def)

lemma commit_update:
  assumes ev: "webhookEvent_findUnique (deliveredEventId d) db = None"
    and ord: "order_findUnique_stripeCheckoutId (deliveredSessionId d) db = Some order"
    and np: "\<not> alreadyPaid d order"
    and p: "order_findUnique_id (order_id order) db = Some p"
  shows "commit d (Some (order_id order)) db = Inr (snd (process d db))
       \<and> fst (process d db) = Inr (Some (transition d p))"
proof -
  from update_found[OF ord, of d] p
  have up: "order_update (order_id order) (transition d) db =
               Inr (transition d p,
                    db\<lparr> orders := map (\<lambda>q. if order_id q = order_id order then transition d q
                                           else q) (orders db) \<rparr>)"
    by simp
  show ?thesis
  proof (cases d)
    case (Completed sid paymentId email i now)
    have f: "transition d = (\<lambda>p. p\<lparr> status := PAID, stripePaymentId := paymentId,
                customerEmail := email, paidAt := Some now \<rparr>)"
      using Completed by (intro ext) simp
    from up have up': "order_update (order_id order)
         (\<lambda>p. p\<lparr> status := PAID, stripePaymentId := paymentId,
                  customerEmail := email, paidAt := Some now \<rparr>) db =
       Inr (transition d p,
            db\<lparr> orders := map (\<lambda>q. if order_id q = order_id order then transition d q
                                   else q) (orders db) \<rparr>)"
      by (simp only: f)
    have c: "commit d (Some (order_id order)) db =
        Inr (db\<lparr> orders := map (\<lambda>q. if order_id q = order_id order then transition d q
                                   else q) (orders db),
              webhookEvents := webhookEvents db @
                [\<lparr> event_id = i, event_type = ''checkout.session.completed'' \<rparr>] \<rparr>)"
      using up ev Completed recorded_iff[of i db]
      by (simp add: commit_def webhookEvent_create_def Let_def)
    have s: "process d db =
        (Inr (Some (transition d p)),
         db\<lparr> orders := map (\<lambda>q. if order_id q = order_id order then transition d q
                                   else q) (orders db),
              webhookEvents := webhookEvents db @
                [\<lparr> event_id = i, event_type = ''checkout.session.completed'' \<rparr>] \<rparr>)"
      using up' ev ord np Completed recorded_iff[of i db]
      by (simp add: markOrderAsPaid_def markOrderAsPaid_tx_def transaction_def
          await_def webhookEvent_create_def Let_def)
    from c s show ?thesis by simp
  next
    case (Expired sid i)
    have f: "transition d = (\<lambda>p. p\<lparr> status := FAILED \<rparr>)"
      using Expired by (intro ext) simp
    from up have up': "order_update (order_id order) (\<lambda>p. p\<lparr> status := FAILED \<rparr>) db =
       Inr (transition d p,
            db\<lparr> orders := map (\<lambda>q. if order_id q = order_id order then transition d q
                                   else q) (orders db) \<rparr>)"
      by (simp only: f)
    have c: "commit d (Some (order_id order)) db =
        Inr (db\<lparr> orders := map (\<lambda>q. if order_id q = order_id order then transition d q
                                   else q) (orders db),
              webhookEvents := webhookEvents db @
                [\<lparr> event_id = i, event_type = ''checkout.session.expired'' \<rparr>] \<rparr>)"
      using up ev Expired recorded_iff[of i db]
      by (simp add: commit_def webhookEvent_create_def Let_def)
    have s: "process d db =
        (Inr (Some (transition d p)),
         db\<lparr> orders := map (\<lambda>q. if order_id q = order_id order then transition d q
                                   else q) (orders db),
              webhookEvents := webhookEvents db @
                [\<lparr> event_id = i, event_type = ''checkout.session.expired'' \<rparr>] \<rparr>)"
      using up' ev ord np Expired recorded_iff[of i db]
      by (simp add: markOrderAsFailed_def markOrderAsFailed_tx_def transaction_def
          await_def webhookEvent_create_def Let_def)
    from c s show ?thesis by simp
  qed
qed







lemma txn_alone_is_process:
  "\<exists>r. process d db = (Inr r, snd (process d db))
       \<and> run_txns [0, 0, 0, 0] [Queued d] db = ([Committed d r], snd (process d db))"
proof (cases "webhookEvent_findUnique (deliveredEventId d) db")
  case (Some ev)
  then have "process d db = (Inr None, db)"
    by (cases d) (simp_all add: paid_duplicate failed_duplicate)
  with Some show ?thesis by simp
next
  case None
  note ev = this
  show ?thesis
  proof (cases "order_findUnique_stripeCheckoutId (deliveredSessionId d) db")
    case None
    from commit_unmatched[OF ev None] ev None show ?thesis
      by (cases "process d db") simp
  next
    case (Some order)
    show ?thesis
    proof (cases "alreadyPaid d order")
      case True
      from commit_alreadyPaid[OF ev Some True] ev Some True show ?thesis
        by (cases "process d db") simp
    next
      case False
      from update_found[OF Some, of d] obtain p where
        p: "order_findUnique_id (order_id order) db = Some p" "order_id p = order_id order"
        by auto
      from commit_update[OF ev Some False p(1)] ev Some False p show ?thesis
        by (cases "process d db") simp
    qed
  qed
qed

section \<open>Totals and order creation\<close>

lemma round_nat_exact: "n < 9007199254740992 \<Longrightarrow> round_nat n = n"
  by (simp add: round_nat_def)

lemma round53_exact: "\<bar>i\<bar> < 9007199254740992 \<Longrightarrow> round53 i = i"
  by (auto simp: round53_def round_nat_exact)





lemma validateItems_objects:
  "validateItems (map Some xs) = (if list_ex item_rejected xs then Rejected else Accepted xs)"
  by (induction xs) simp_all







lemma rejected_items_answer_400:
  assumes "body_items req = None \<or> body_items req = Some []
     \<or> (\<exists>xs item. body_items req = Some (map Some xs) \<and> item \<in> set xs
          \<and> (item_id item = None \<or> item_id item = Some [] \<or> quantity item = None
              \<or> (\<exists>q. quantity item = Some q \<and> q < 1)))"
  shows "http_status (fst (createCheckoutSession stripe uuid req db)) = 400
       \<and> \<not> success (fst (createCheckoutSession stripe uuid req db))
       \<and> snd (createCheckoutSession stripe uuid req db) = (db, [])"
proof -
  consider "body_items req = None" | "body_items req = Some []"
    | xs item where "body_items req = Some (map Some xs)" "xs \<noteq> []" "item \<in> set xs"
        "item_id item = None \<or> item_id item = Some [] \<or> quantity item = None
          \<or> (\<exists>q. quantity item = Some q \<and> q < 1)"
    using assms by (cases "body_items req") auto
  then show ?thesis
  proof cases
    case 1
    then show ?thesis by (simp add: createCheckoutSession_def bad_request_def)
  next
    case 2
    then show ?thesis by (simp add: createCheckoutSession_def bad_request_def)
  next
    case 3
    from 3(4) have "item_rejected item"
      by (auto simp: item_rejected_def truthy_def)
    with 3(3) have "list_ex item_rejected xs" by (auto simp: list_ex_iff)
    with 3(1,2) show ?thesis
      by (simp add: createCheckoutSession_def bad_request_def validateItems_objects)
  qed
qed

section \<open>Webhook processing\<close>

text \<open>
  Claim C1. An order that is \<open>PAID\<close> or \<open>FAILED\<close> should keep its status under every
  later completed or expired event. The code does not: \<^verbatim>\<open>markOrderAsFailed\<close> writes
  \<open>FAILED\<close> without looking at the status, and \<^verbatim>\<open>markOrderAsPaid\<close> guards only
  \<open>PAID\<close>. On the example order (session \<open>cs_1\<close>), a completed event followed by a late
  expired event ends in \<open>FAILED\<close>, and an expired event followed by a late completed
  event ends in \<open>PAID\<close>.
\<close>

theorem terminal_status_overwritten:
  "map status (orders (deliverAll
       [Completed ''cs_1'' (Some ''pi_1'') (Some ''a@b.c'') ''evt_1'' 5] example_db)) = [PAID]
   \<and> map status (orders (deliverAll
       [Completed ''cs_1'' (Some ''pi_1'') (Some ''a@b.c'') ''evt_1'' 5,
        Expired ''cs_1'' ''evt_2''] example_db)) = [FAILED]
   \<and> map status (orders (deliverAll
       [Expired ''cs_1'' ''evt_2'',
        Completed ''cs_1'' (Some ''pi_1'') (Some ''a@b.c'') ''evt_1'' 5] example_db)) = [PAID]"
  by (simp add: deliverAll_def markOrderAsPaid_def markOrderAsPaid_tx_def
      markOrderAsFailed_def markOrderAsFailed_tx_def transaction_def await_def
      webhookEvent_findUnique_def webhookEvent_create_def
      order_findUnique_stripeCheckoutId_def order_findUnique_id_def order_update_def
      example_db_def example_order_def Let_def)




text \<open>
  Claim C3. Both webhook operations run inside one transaction. Whatever awaited store
  call fails (\<open>failAt\<close>), the operation either throws and leaves the store exactly as it
  was, so that a retry on a healthy store does what a first delivery would have done, or
  it returns what the undisturbed run returns, with the event recorded. The undisturbed
  run never throws.
\<close>

theorem webhook_transaction_atomic:
  "(case markOrderAsPaid failAt sid paymentId email i now db of
      (Inl e, db1) \<Rightarrow>
        db1 = db
        \<and> markOrderAsPaid None sid paymentId email i now db1 =
            markOrderAsPaid None sid paymentId email i now db
    | (Inr r, db1) \<Rightarrow>
        (Inr r, db1) = markOrderAsPaid None sid paymentId email i now db
        \<and> list_ex (\<lambda>e. event_id e = i) (webhookEvents db1))
   \<and> (case markOrderAsFailed failAt sid i db of
      (Inl e, db1) \<Rightarrow>
        db1 = db \<and> markOrderAsFailed None sid i db1 = markOrderAsFailed None sid i db
    | (Inr r, db1) \<Rightarrow>
        (Inr r, db1) = markOrderAsFailed None sid i db
        \<and> list_ex (\<lambda>e. event_id e = i) (webhookEvents db1))
   \<and> (\<exists>r. fst (markOrderAsPaid None sid paymentId email i now db) = Inr r)
   \<and> (\<exists>r. fst (markOrderAsFailed None sid i db) = Inr r)"
proof -
  obtain r dbc where clean: "markOrderAsPaid None sid paymentId email i now db = (Inr r, dbc)"
    using paid_clean_returns[of sid paymentId email i now db]
    by (cases "markOrderAsPaid None sid paymentId email i now db") auto
  have "list_ex (\<lambda>e. event_id e = i)
      (webhookEvents (snd (markOrderAsPaid None sid paymentId email i now db)))"
    by (simp add: markOrderAsPaid_events)
  with clean have rec: "list_ex (\<lambda>e. event_id e = i) (webhookEvents dbc)" by simp
  have paid: "(case markOrderAsPaid failAt sid paymentId email i now db of
      (Inl e, db1) \<Rightarrow>
        db1 = db
        \<and> markOrderAsPaid None sid paymentId email i now db1 =
            markOrderAsPaid None sid paymentId email i now db
    | (Inr r, db1) \<Rightarrow>
        (Inr r, db1) = markOrderAsPaid None sid paymentId email i now db
        \<and> list_ex (\<lambda>e. event_id e = i) (webhookEvents db1))"
    using paid_fault[of failAt sid paymentId email i now db] clean rec by auto
  obtain r' dbc' where clean': "markOrderAsFailed None sid i db = (Inr r', dbc')"
    using failed_clean_returns[of sid i db]
    by (cases "markOrderAsFailed None sid i db") auto
  have "list_ex (\<lambda>e. event_id e = i) (webhookEvents (snd (markOrderAsFailed None sid i db)))"
    by (simp add: markOrderAsFailed_events)
  with clean' have rec': "list_ex (\<lambda>e. event_id e = i) (webhookEvents dbc')" by simp
  have failed: "(case markOrderAsFailed failAt sid i db of
      (Inl e, db1) \<Rightarrow>
        db1 = db \<and> markOrderAsFailed None sid i db1 = markOrderAsFailed None sid i db
    | (Inr r, db1) \<Rightarrow>
        (Inr r, db1) = markOrderAsFailed None sid i db
        \<and> list_ex (\<lambda>e. event_id e = i) (webhookEvents db1))"
    using failed_fault[of failAt sid i db] clean' rec' by auto
  from paid failed paid_clean_returns failed_clean_returns show ?thesis by blast
qed

text \<open>
  Claim C9. When no order carries the event's session id, a completed or an expired
  event changes no order and returns \<^verbatim>\<open>null\<close>; the event's row is appended (unless a
  row with its id is there already, in which case nothing is written).
\<close>

theorem unmatched_event_recorded:
  assumes "order_findUnique_stripeCheckoutId sid db = None"
  shows "fst (markOrderAsPaid None sid paymentId email i now db) = Inr None
       \<and> orders (snd (markOrderAsPaid None sid paymentId email i now db)) = orders db
       \<and> webhookEvents (snd (markOrderAsPaid None sid paymentId email i now db)) =
           (if list_ex (\<lambda>e. event_id e = i) (webhookEvents db) then webhookEvents db
            else webhookEvents db @
                   [\<lparr> event_id = i, event_type = ''checkout.session.completed'' \<rparr>])
       \<and> fst (markOrderAsFailed None sid i db) = Inr None
       \<and> orders (snd (markOrderAsFailed None sid i db)) = orders db
       \<and> webhookEvents (snd (markOrderAsFailed None sid i db)) =
           (if list_ex (\<lambda>e. event_id e = i) (webhookEvents db) then webhookEvents db
            else webhookEvents db @
                   [\<lparr> event_id = i, event_type = ''checkout.session.expired'' \<rparr>])"
proof (cases "webhookEvent_findUnique i db")
  case None
  with assms recorded_iff[of i db] show ?thesis
    by (simp add: paid_unmatched failed_unmatched)
next
  case (Some ev)
  with recorded_iff[of i db] show ?thesis
    by (simp add: paid_duplicate failed_duplicate)
qed

theorem unmatched_event_recorded_witness:
  "order_findUnique_stripeCheckoutId ''cs_unknown'' example_db = None
   \<and> fst (markOrderAsPaid None ''cs_unknown'' None None ''evt_9'' 3 example_db) = Inr None
   \<and> orders (snd (markOrderAsPaid None ''cs_unknown'' None None ''evt_9'' 3 example_db)) =
       [example_order]
   \<and> webhookEvents (snd (markOrderAsPaid None ''cs_unknown'' None None ''evt_9'' 3 example_db)) =
       [\<lparr> event_id = ''evt_9'', event_type = ''checkout.session.completed'' \<rparr>]"
proof -
  have h: "order_findUnique_stripeCheckoutId ''cs_unknown'' example_db = None"
    by (simp add: order_findUnique_stripeCheckoutId_def example_db_def example_order_def)
  have e: "webhookEvents example_db = []" "orders example_db = [example_order]"
    by (simp_all add: example_db_def)
  from unmatched_event_recorded[OF h, of None None "''evt_9''" 3] h e show ?thesis
    by simp
qed

section \<open>Webhook signature\<close>

text \<open>
  Claim C5. A webhook request with no signature header (or an empty one), or whose
  payload and signature the provider's verification rejects, is answered with status
  400 and the store is left exactly as it was, whatever the payload says and whatever
  orders the store holds.
\<close>

theorem invalid_signature_rejected:
  assumes "stripe_signature req = None \<or> stripe_signature req = Some []
     \<or> (\<exists>signature payload. stripe_signature req = Some signature
           \<and> rawBody req = Some payload
           \<and> verifyWebhookSignature stripe payload signature = None)"
  shows "webhook_status (fst (handleStripeWebhook stripe failAt now req db)) = 400
       \<and> snd (handleStripeWebhook stripe failAt now req db) = db"
  using assms
  by (auto simp: handleStripeWebhook_def truthy_def split: option.splits)

theorem invalid_signature_rejected_witness:
  "verifyWebhookSignature example_stripe ''{id: evt_1}'' ''forged'' = None
   \<and> handleStripeWebhook example_stripe None 5
        \<lparr> stripe_signature = Some ''forged'', rawBody = Some ''{id: evt_1}'' \<rparr> example_db =
      (\<lparr> webhook_status = 400, webhook_body = Text ''Invalid signature'' \<rparr>, example_db)
   \<and> map status (orders (snd (handleStripeWebhook example_stripe None 5
        \<lparr> stripe_signature = Some ''good'', rawBody = Some ''{id: evt_1}'' \<rparr> example_db))) =
      [PAID]"
proof -
  let ?req = "\<lparr> stripe_signature = Some ''forged'', rawBody = Some ''{id: evt_1}'' \<rparr>"
  have v: "verifyWebhookSignature example_stripe ''{id: evt_1}'' ''forged'' = None"
    by (simp add: verifyWebhookSignature_def example_stripe_def)
  then have h: "stripe_signature ?req = None \<or> stripe_signature ?req = Some []
     \<or> (\<exists>signature payload. stripe_signature ?req = Some signature
           \<and> rawBody ?req = Some payload
           \<and> verifyWebhookSignature example_stripe payload signature = None)"
    by simp
  have b: "webhook_body (fst (handleStripeWebhook example_stripe None 5 ?req example_db)) =
           Text ''Invalid signature''"
    by (simp add: handleStripeWebhook_def truthy_def v)
  have g: "map status (orders (snd (handleStripeWebhook example_stripe None 5
        \<lparr> stripe_signature = Some ''good'', rawBody = Some ''{id: evt_1}'' \<rparr> example_db))) =
      [PAID]"
    by (simp add: handleStripeWebhook_def truthy_def verifyWebhookSignature_def
        example_stripe_def example_completed_def example_session_def routeEvent_def
        handleCheckoutCompleted_def markOrderAsPaid_def markOrderAsPaid_tx_def transaction_def
        await_def webhookEvent_findUnique_def webhookEvent_create_def
        order_findUnique_stripeCheckoutId_def order_findUnique_id_def order_update_def
        example_db_def example_order_def Let_def)
  from invalid_signature_rejected[OF h, of None 5 example_db] b v g show ?thesis
    by (cases "handleStripeWebhook example_stripe None 5 ?req example_db") auto
qed

section \<open>Checkout\<close>




text \<open>
  Claim C7. A request whose item list holds \<^verbatim>\<open>null\<close> is not answered with status
  400: the validation loop throws on \<^verbatim>\<open>item.id\<close>, and the controller's
  \<^verbatim>\<open>catch\<close> answers with status 500, also when \<^verbatim>\<open>null\<close> follows a valid item.
  The store is unchanged and no call to the provider is made. For a missing or empty
  list and for a rejected object the answer is 400 (\<open>rejected_items_answer_400\<close>).
\<close>

theorem null_item_answers_500:
  "createCheckoutSession example_stripe ''uuid-1''
     \<lparr> body_items = Some [None], body_idempotencyKey = None \<rparr> example_db =
   (\<lparr> http_status = 500, success = False, sessionUrl = None, orderId = None,
      error = Some ''An unexpected error occurred. Please try again.'' \<rparr>, example_db, [])
   \<and> createCheckoutSession example_stripe ''uuid-1''
     \<lparr> body_items = Some [Some example_item, None], body_idempotencyKey = None \<rparr> example_db =
   (\<lparr> http_status = 500, success = False, sessionUrl = None, orderId = None,
      error = Some ''An unexpected error occurred. Please try again.'' \<rparr>, example_db, [])"
  by (simp add: createCheckoutSession_def server_error_def example_item_def item_rejected_def
      truthy_def)

text \<open>
  Claim C8. When the request's key finds an order that has a session id and the provider
  still reports a URL for that session, the response carries that URL and the order's
  id; the store is unchanged and the only provider call is the retrieval. The items of
  the request (any validated list of objects) play no part.
\<close>

theorem idempotent_replay:
  assumes items: "body_items req = Some (map Some xs)" "xs \<noteq> []"
      "\<not> list_ex item_rejected xs"
    and found: "findOrderByIdempotencyKey (resolveKey (body_idempotencyKey req) uuid) db
                  = Some order"
    and session: "stripeCheckoutId order = Some sid" "sid \<noteq> []"
    and live: "sessions_retrieve stripe sid = Inr session" "url session = Some u" "u \<noteq> []"
  shows "createCheckoutSession stripe uuid req db =
           (\<lparr> http_status = 200, success = True, sessionUrl = Some u,
              orderId = Some (order_id order), error = None \<rparr>,
            db, [RetrieveSession sid])"
  using assms
  by (simp add: createCheckoutSession_def existingSession_def getCheckoutSession_def
      truthy_def session_response_def validateItems_objects Let_def)

theorem idempotent_replay_witness:
  "createCheckoutSession example_stripe ''uuid-1''
     \<lparr> body_items = Some [Some \<lparr> item_id = Some ''p2'', name = ''Lamp'', price = Some 9900,
                                 quantity = Some 3 \<rparr>],
       body_idempotencyKey = Some ''key-1'' \<rparr> example_db =
   (\<lparr> http_status = 200, success = True, sessionUrl = Some ''https://pay.example/cs_1'',
      orderId = Some 0, error = None \<rparr>, example_db, [RetrieveSession ''cs_1''])"
proof -
  let ?req = "\<lparr> body_items = Some [Some \<lparr> item_id = Some ''p2'', name = ''Lamp'',
                                        price = Some 9900, quantity = Some 3 \<rparr>],
       body_idempotencyKey = Some ''key-1'' \<rparr>"
  let ?xs = "[\<lparr> item_id = Some ''p2'', name = ''Lamp'', price = Some 9900, quantity = Some 3 \<rparr>]"
  have a: "body_items ?req = Some (map Some ?xs)" by simp
  have b: "?xs \<noteq> []" by simp
  have c: "\<not> list_ex item_rejected ?xs" by (simp add: item_rejected_def truthy_def)
  have d: "findOrderByIdempotencyKey (resolveKey (body_idempotencyKey ?req) ''uuid-1'')
             example_db = Some example_order"
    by (simp add: findOrderByIdempotencyKey_def order_findUnique_idempotencyKey_def
        resolveKey_def truthy_def example_db_def example_order_def)
  have e: "stripeCheckoutId example_order = Some ''cs_1''" by (simp add: example_order_def)
  have f: "''cs_1'' \<noteq> []" by simp
  have g: "sessions_retrieve example_stripe ''cs_1'' = Inr example_session"
    by (simp add: example_stripe_def)
  have h: "url example_session = Some ''https://pay.example/cs_1''"
    by (simp add: example_session_def)
  have i: "''https://pay.example/cs_1'' \<noteq> []" by simp
  have j: "order_id example_order = 0" by (simp add: example_order_def)
  from idempotent_replay[OF a b c d e f g h i] j show ?thesis by simp
qed

text \<open>
  Claim C10, as stated for a missing price. The request passes validation, but the
  total is \<open>NaN\<close>, the \<^verbatim>\<open>Int\<close> column refuses it, and the request is answered with
  status 500: no order is created.
\<close>

theorem unpriced_request_creates_no_order:
  "validateItems [Some \<lparr> item_id = Some ''p1'', name = ''Mug'', price = None,
                          quantity = Some 2 \<rparr>] =
     Accepted [\<lparr> item_id = Some ''p1'', name = ''Mug'', price = None, quantity = Some 2 \<rparr>]
   \<and> createCheckoutSession example_stripe ''uuid-1'' (request_priced None (Some 2)) empty_db =
     (\<lparr> http_status = 500, success = False, sessionUrl = None, orderId = None,
        error = Some ''An unexpected error occurred. Please try again.'' \<rparr>, empty_db, [])"
  by (simp add: createCheckoutSession_def request_priced_def item_rejected_def
      truthy_def resolveKey_def existingSession_def findOrderByIdempotencyKey_def
      order_findUnique_idempotencyKey_def empty_db_def newSession_def afterCreateOrder_def
      createOrder_def createOrder_lookup_def createOrder_insert_def order_create_def
      calculateOrderTotal_def server_error_def)

text \<open>
  Claim C10, amended. Validation does not look at prices: changing the price of an item
  changes nothing about its acceptance, and replacing the prices of a list changes
  neither a rejection nor a throw. A request with a negative price or a zero price is
  accepted, and the order it creates holds a negative amount or zero. A request without
  a price passes validation and its total is \<open>NaN\<close>, but it creates no order (status
  500).
\<close>

theorem price_not_validated:
  "item_rejected (item\<lparr> price := p \<rparr>) = item_rejected item
   \<and> ((validateItems (map (map_option (\<lambda>item. item\<lparr> price := f item \<rparr>)) ys) =
          ThrewTypeError)
        = (validateItems ys = ThrewTypeError))
   \<and> ((validateItems (map (map_option (\<lambda>item. item\<lparr> price := f item \<rparr>)) ys) = Rejected)
        = (validateItems ys = Rejected))
   \<and> http_status (fst (createCheckoutSession example_stripe ''uuid-1''
        (request_priced (Some (- 500)) (Some 2)) empty_db)) = 200
   \<and> map amount (orders (fst (snd (createCheckoutSession example_stripe ''uuid-1''
        (request_priced (Some (- 500)) (Some 2)) empty_db)))) = [- 1000]
   \<and> http_status (fst (createCheckoutSession example_stripe ''uuid-1''
        (request_priced (Some 0) (Some 2)) empty_db)) = 200
   \<and> map amount (orders (fst (snd (createCheckoutSession example_stripe ''uuid-1''
        (request_priced (Some 0) (Some 2)) empty_db)))) = [0]
   \<and> calculateOrderTotal [\<lparr> item_id = Some ''p1'', name = ''Mug'', price = None,
                              quantity = Some 2 \<rparr>] = NaN
   \<and> http_status (fst (createCheckoutSession example_stripe ''uuid-1''
        (request_priced None (Some 2)) empty_db)) = 500
   \<and> orders (fst (snd (createCheckoutSession example_stripe ''uuid-1''
        (request_priced None (Some 2)) empty_db))) = []"
proof -
  have a: "item_rejected (item\<lparr> price := p \<rparr>) = item_rejected item" for item p
    by (simp add: item_rejected_def)
  have v: "(validateItems (map (map_option (\<lambda>item. item\<lparr> price := f item \<rparr>)) ys) = ThrewTypeError
            = (validateItems ys = ThrewTypeError))
         \<and> (validateItems (map (map_option (\<lambda>item. item\<lparr> price := f item \<rparr>)) ys) = Rejected
            = (validateItems ys = Rejected))"
  proof (induction ys)
    case Nil
    then show ?case by simp
  next
    case (Cons y ys)
    then show ?case
      by (cases y) (auto simp: a split: validation.splits)
  qed
  have tot: "calculateOrderTotal [\<lparr> item_id = Some ''p1'', name = ''Mug'', price = Some c,
                              quantity = Some 2 \<rparr>] = Num (c * 2)"
    if "\<bar>c * 2\<bar> < 9007199254740992" for c
    using that by (simp add: calculateOrderTotal_def round53_exact)
  have run: "createCheckoutSession example_stripe ''uuid-1'' (request_priced (Some c) (Some 2))
       empty_db =
      (session_response (Some ''https://pay.example/cs_new'') 0,
       \<lparr> orders = [\<lparr> order_id = 0, status = PROCESSING,
                     amount = c * 2, currency = ''usd'',
                     items = [\<lparr> item_id = Some ''p1'', name = ''Mug'', price = Some c,
                                quantity = Some 2 \<rparr>],
                     idempotencyKey = ''uuid-1'', stripeCheckoutId = Some ''cs_new'',
                     stripePaymentId = None, customerEmail = None, paidAt = None \<rparr>],
         webhookEvents = [], nextOrderId = 1 \<rparr>,
       [CreateSession 0 [\<lparr> item_id = Some ''p1'', name = ''Mug'', price = Some c,
                                quantity = Some 2 \<rparr>] ''uuid-1''])"
    if "\<bar>c * 2\<bar> < 9007199254740992" "- 2147483648 \<le> c * 2" "c * 2 \<le> 2147483647" for c
    using that tot[OF that(1)]
    by (simp add: createCheckoutSession_def request_priced_def item_rejected_def
        truthy_def resolveKey_def existingSession_def findOrderByIdempotencyKey_def
        order_findUnique_idempotencyKey_def empty_db_def newSession_def afterCreateOrder_def
        createOrder_def
        createOrder_lookup_def createOrder_insert_def order_create_def Let_def
        stripe_createCheckoutSession_def example_stripe_def updateOrderWithStripeSession_def
        order_update_def order_findUnique_id_def)
  have n: "calculateOrderTotal [\<lparr> item_id = Some ''p1'', name = ''Mug'', price = None,
                              quantity = Some 2 \<rparr>] = NaN"
    by (simp add: calculateOrderTotal_def)
  have u: "createCheckoutSession example_stripe ''uuid-1'' (request_priced None (Some 2))
             empty_db =
           (server_error ''An unexpected error occurred. Please try again.'', empty_db, [])"
    by (simp add: createCheckoutSession_def request_priced_def item_rejected_def
      truthy_def resolveKey_def existingSession_def findOrderByIdempotencyKey_def
      order_findUnique_idempotencyKey_def empty_db_def newSession_def afterCreateOrder_def
      createOrder_def createOrder_lookup_def createOrder_insert_def order_create_def
      calculateOrderTotal_def)
  have neg: "createCheckoutSession example_stripe ''uuid-1''
      (request_priced (Some (- 500)) (Some 2)) empty_db = 
      (session_response (Some ''https://pay.example/cs_new'') 0,
       \<lparr> orders = [\<lparr> order_id = 0, status = PROCESSING,
                     amount = - 500 * 2, currency = ''usd'',
                     items = [\<lparr> item_id = Some ''p1'', name = ''Mug'', price = Some (- 500),
                                quantity = Some 2 \<rparr>],
                     idempotencyKey = ''uuid-1'', stripeCheckoutId = Some ''cs_new'',
                     stripePaymentId = None, customerEmail = None, paidAt = None \<rparr>],
         webhookEvents = [], nextOrderId = 1 \<rparr>,
       [CreateSession 0 [\<lparr> item_id = Some ''p1'', name = ''Mug'', price = Some (- 500),
                                quantity = Some 2 \<rparr>] ''uuid-1''])"
    by (rule run) simp_all
  have zero: "createCheckoutSession example_stripe ''uuid-1''
      (request_priced (Some 0) (Some 2)) empty_db = 
      (session_response (Some ''https://pay.example/cs_new'') 0,
       \<lparr> orders = [\<lparr> order_id = 0, status = PROCESSING,
                     amount = 0 * 2, currency = ''usd'',
                     items = [\<lparr> item_id = Some ''p1'', name = ''Mug'', price = Some 0,
                                quantity = Some 2 \<rparr>],
                     idempotencyKey = ''uuid-1'', stripeCheckoutId = Some ''cs_new'',
                     stripePaymentId = None, customerEmail = None, paidAt = None \<rparr>],
         webhookEvents = [], nextOrderId = 1 \<rparr>,
       [CreateSession 0 [\<lparr> item_id = Some ''p1'', name = ''Mug'', price = Some 0,
                                quantity = Some 2 \<rparr>] ''uuid-1''])"
    by (rule run) simp_all
  have c1: "http_status (fst (createCheckoutSession example_stripe ''uuid-1''
        (request_priced (Some (- 500)) (Some 2)) empty_db)) = 200"
    and c2: "map amount (orders (fst (snd (createCheckoutSession example_stripe ''uuid-1''
        (request_priced (Some (- 500)) (Some 2)) empty_db)))) = [- 1000]"
    by (simp_all add: neg session_response_def)
  have c3: "http_status (fst (createCheckoutSession example_stripe ''uuid-1''
        (request_priced (Some 0) (Some 2)) empty_db)) = 200"
    and c4: "map amount (orders (fst (snd (createCheckoutSession example_stripe ''uuid-1''
        (request_priced (Some 0) (Some 2)) empty_db)))) = [0]"
    by (simp_all add: zero session_response_def)
  have c5: "http_status (fst (createCheckoutSession example_stripe ''uuid-1''
        (request_priced None (Some 2)) empty_db)) = 500"
    and c6: "orders (fst (snd (createCheckoutSession example_stripe ''uuid-1''
        (request_priced None (Some 2)) empty_db))) = []"
    unfolding u by (simp_all add: server_error_def empty_db_def)
  from a v c1 c2 c3 c4 n c5 c6 show ?thesis by blast
qed

section \<open>Concurrent checkout requests with one key\<close>

text \<open>
  Claim C4. Two requests with the same key whose calls of \<^verbatim>\<open>createOrder\<close> both
  look the key up before either inserts. The first insert creates the order; the second
  meets the uniqueness constraint and throws, since \<^verbatim>\<open>createOrder\<close> has no handler
  for that error. One order row exists, but the callers do not observe the same result:
  the controller goes on to answer the first with the session URL and the order id, and
  its \<^verbatim>\<open>catch\<close> answers the second with status 500 and neither.
\<close>

theorem conflicting_insert_throws:
  "run_schedule [0, 1, 0, 1] [Calling example_input, Calling example_input] empty_db =
     ([Returned example_created, Threw UniqueConstraintFailed],
      \<lparr> orders = [example_created], webhookEvents = [], nextOrderId = 1 \<rparr>)
   \<and> fst (afterCreateOrder example_stripe [example_item] ''key-2''
        \<lparr> orders = [example_created], webhookEvents = [], nextOrderId = 1 \<rparr>
        (Inr (example_created,
              \<lparr> orders = [example_created], webhookEvents = [], nextOrderId = 1 \<rparr>))) =
       \<lparr> http_status = 200, success = True,
         sessionUrl = Some ''https://pay.example/cs_new'', orderId = Some 0, error = None \<rparr>
   \<and> fst (afterCreateOrder example_stripe [example_item] ''key-2''
        \<lparr> orders = [example_created], webhookEvents = [], nextOrderId = 1 \<rparr>
        (Inl UniqueConstraintFailed)) =
       \<lparr> http_status = 500, success = False, sessionUrl = None, orderId = None,
         error = Some ''An unexpected error occurred. Please try again.'' \<rparr>"
  by (simp add: createOrder_lookup_def createOrder_insert_def order_create_def
      order_findUnique_idempotencyKey_def example_input_def example_created_def empty_db_def
      Let_def afterCreateOrder_def stripe_createCheckoutSession_def example_stripe_def
      updateOrderWithStripeSession_def order_update_def order_findUnique_id_def
      session_response_def server_error_def truthy_def)

end
